theory Spec2Isabelle
  imports Main "HOL-Library.AList"
begin

section \<open>The Feedly tool server: data model\<close>

text \<open>
  The server (\<^verbatim>\<open>server.py\<close>) registers four tool handlers. Each handler shapes its
  arguments into one HTTP request against the Feedly API, raises on a status outside
  the success range, and returns the decoded JSON body. Strings are byte strings (the
  UTF-8 encoding of the Python text), a Python dict is an association list in insertion
  order, and an exception is the left summand of a sum.
\<close>

datatype json =
    JNull
  | JBool bool
  | JInt int
  | JStr string
  | JArr "json list"
  | JObj "(string \<times> json) list"

datatype verb = GET | POST

record request =
  verb :: verb
  url :: string
  params :: "(string \<times> string) list"
  json_body :: "json option"
  headers :: "(string \<times> string) list"
  timeout :: nat

record response =
  status_code :: nat
  content :: string

text \<open>
  The exceptions a handler can leave through. \<open>HTTPStatusError\<close> is what
  \<^verbatim>\<open>raise_for_status\<close> raises; it is kept with the two fields of the response that
  the specification names, the status and the body. \<open>TransportError\<close> stands for a
  failed connection or an expired timeout, \<open>JSONDecodeError\<close> for a body that
  \<^verbatim>\<open>resp.json()\<close> cannot decode. The last three are the failures of the registry and
  of the dispatcher.
\<close>

datatype error =
    HTTPStatusError nat string
  | TransportError
  | JSONDecodeError
  | UnknownTool string
  | InvalidArguments string
  | DuplicateTool string

text \<open>
  The outside world. The process environment maps variable names to values. The
  upstream service answers a request with a response, or not at all (\<open>None\<close>: no
  connection, or no answer within the timeout). The JSON decoder of the HTTP library is
  a parameter: it gives \<open>None\<close> on a body that is not JSON.
\<close>

type_synonym environ = "string \<rightharpoonup> string"
type_synonym upstream = "request \<Rightarrow> response option"
type_synonym decoder = "string \<Rightarrow> json option"

section \<open>Python built-ins used by the handlers\<close>

text \<open>\<^verbatim>\<open>str(n)\<close> on an integer: decimal digits, with a minus sign when negative.\<close>

definition digit_char :: "nat \<Rightarrow> char" where
  "digit_char d = ''0123456789'' ! d"

fun str_nat :: "nat \<Rightarrow> string" where
  "str_nat n = (if n < 10 then [digit_char n] else str_nat (n div 10) @ [digit_char (n mod 10)])"

declare str_nat.simps [simp del]

definition str_int :: "int \<Rightarrow> string" where
  "str_int i = (if i < 0 then CHR ''-'' # str_nat (nat (- i)) else str_nat (nat i))"

text \<open>
  \<^verbatim>\<open>f"{x}"\<close> on a value that is a string or \<^verbatim>\<open>None\<close>: the string itself, or the
  text \<^verbatim>\<open>None\<close>.
\<close>

definition format_str :: "string option \<Rightarrow> string" where
  "format_str v = (case v of None \<Rightarrow> ''None'' | Some s \<Rightarrow> s)"

text \<open>Truth value of a \<^verbatim>\<open>str | None\<close>: false for \<^verbatim>\<open>None\<close> and for the empty string.\<close>

definition truthy :: "string option \<Rightarrow> bool" where
  "truthy v = (case v of None \<Rightarrow> False | Some s \<Rightarrow> s \<noteq> [])"

definition os_getenv :: "environ \<Rightarrow> string \<Rightarrow> string option" where
  "os_getenv env k = env k"

subsection \<open>\<^verbatim>\<open>urllib.parse.quote_plus\<close>\<close>

text \<open>
  \<^verbatim>\<open>quote(string, safe)\<close> keeps the bytes that are letters, digits or one of
  \<^verbatim>\<open>_.-~\<close>, and those listed in \<open>safe\<close>, and writes every other byte as \<^verbatim>\<open>%XX\<close>
  with two upper-case hexadecimal digits. \<^verbatim>\<open>quote_plus\<close> calls it with no extra safe
  byte when the string has no space; otherwise it keeps the spaces and then replaces
  each by a plus sign.
\<close>

definition ALWAYS_SAFE :: string where
  "ALWAYS_SAFE =
     ''ABCDEFGHIJKLMNOPQRSTUVWXYZabcdefghijklmnopqrstuvwxyz0123456789_.-~''"

definition hex_char :: "nat \<Rightarrow> char" where
  "hex_char d = ''0123456789ABCDEF'' ! d"

definition quote_byte :: "string \<Rightarrow> char \<Rightarrow> string" where
  "quote_byte safe c =
     (if c \<in> set ALWAYS_SAFE \<or> c \<in> set safe then [c]
      else [CHR ''%'', hex_char (of_char c div 16), hex_char (of_char c mod 16)])"

definition quote :: "string \<Rightarrow> string \<Rightarrow> string" where
  "quote s safe = concat (map (quote_byte safe) s)"

definition replace_char :: "char \<Rightarrow> char \<Rightarrow> string \<Rightarrow> string" where
  "replace_char a b s = map (\<lambda>c. if c = a then b else c) s"

definition quote_plus :: "string \<Rightarrow> string" where
  "quote_plus s =
     (if CHR '' '' \<notin> set s then quote s []
      else replace_char (CHR '' '') (CHR ''+'') (quote s '' ''))"

section \<open>The upstream client\<close>

definition FEEDLY_BASE :: string where
  "FEEDLY_BASE = ''https://api.feedly.com/v3''"

definition TOKEN :: "environ \<Rightarrow> string option" where
  "TOKEN env = os_getenv env ''FEEDLY_TOKEN''"

definition HEADERS :: "environ \<Rightarrow> (string \<times> string) list" where
  "HEADERS env =
     [(''Authorization'', ''Bearer '' @ format_str (TOKEN env)),
      (''accept'', ''application/json'')]"

text \<open>
  The HTTP library does not request the URL string as it is handed over: for a URL with
  a scheme and a host it first removes the dot segments of the path
  (\<^verbatim>\<open>normalize_path\<close>). The path is split at the slashes; a component \<^verbatim>\<open>.\<close> is
  dropped, a component \<^verbatim>\<open>..\<close> also removes the component before it (unless only the
  empty first one is left), and the rest is joined again. A path without such a
  component is left as it is.
\<close>

fun split_on :: "char \<Rightarrow> string \<Rightarrow> string list" where
  "split_on sep [] = [[]]"
| "split_on sep (c # s) =
     (if c = sep then [] # split_on sep s
      else (case split_on sep s of [] \<Rightarrow> [[c]] | x # xs \<Rightarrow> (c # x) # xs))"

fun join :: "char \<Rightarrow> string list \<Rightarrow> string" where
  "join sep [] = []"
| "join sep [x] = x"
| "join sep (x # y # ys) = x @ sep # join sep (y # ys)"

fun drop_dot_segments :: "string list \<Rightarrow> string list \<Rightarrow> string list" where
  "drop_dot_segments output [] = output"
| "drop_dot_segments output (component # components) =
     (if component = ''.'' then drop_dot_segments output components
      else if component = ''..'' then
        drop_dot_segments (if output \<noteq> [] \<and> output \<noteq> [[]] then butlast output else output)
          components
      else drop_dot_segments (output @ [component]) components)"

definition normalize_path :: "string \<Rightarrow> string" where
  "normalize_path path =
     (if CHR ''.'' \<notin> set path then path
      else let components = split_on (CHR ''/'') path
           in if ''.'' \<notin> set components \<and> ''..'' \<notin> set components then path
              else join (CHR ''/'') (drop_dot_segments [] components))"

text \<open>
  A URL string is cut after its scheme and host, at the first slash that follows
  \<^verbatim>\<open>://\<close>; what comes after is the path. (The handlers build no URL with a query or a
  fragment: the parameters travel separately.)
\<close>

fun split_url :: "string \<Rightarrow> string \<times> string" where
  "split_url (a # b # c # s) =
     (if a = CHR '':'' \<and> b = CHR ''/'' \<and> c = CHR ''/''
      then (let host = takeWhile (\<lambda>x. x \<noteq> CHR ''/'') s
            in (a # b # c # host, dropWhile (\<lambda>x. x \<noteq> CHR ''/'') s))
      else (let (origin, path) = split_url (b # c # s) in (a # origin, path)))"
| "split_url s = (s, [])"

definition httpx_url :: "string \<Rightarrow> string" where
  "httpx_url u = (let (origin, path) = split_url u in origin @ normalize_path path)"

text \<open>
  One call of the HTTP library: the request goes out (it is appended to the log of
  issued calls, whatever comes back), and the call returns the response or raises the
  transport error. Nothing is sent twice. The logged request carries the URL that is
  requested, that is, the URL handed over with its path normalised.
\<close>

definition send :: "upstream \<Rightarrow> request \<Rightarrow> request list \<Rightarrow> (error + response) \<times> request list" where
  "send up r calls =
     ((case up r of None \<Rightarrow> Inl TransportError | Some resp \<Rightarrow> Inr resp), calls @ [r])"

definition httpx_post ::
  "upstream \<Rightarrow> string \<Rightarrow> (string \<times> string) list \<Rightarrow> json \<Rightarrow> (string \<times> string) list \<Rightarrow> nat
     \<Rightarrow> request list \<Rightarrow> (error + response) \<times> request list" where
  "httpx_post up u ps body hs t calls =
     send up \<lparr>verb = POST, url = httpx_url u, params = ps, json_body = Some body,
              headers = hs, timeout = t\<rparr> calls"

definition httpx_get ::
  "upstream \<Rightarrow> string \<Rightarrow> (string \<times> string) list \<Rightarrow> (string \<times> string) list \<Rightarrow> nat
     \<Rightarrow> request list \<Rightarrow> (error + response) \<times> request list" where
  "httpx_get up u ps hs t calls =
     send up \<lparr>verb = GET, url = httpx_url u, params = ps, json_body = None,
              headers = hs, timeout = t\<rparr> calls"

definition is_success :: "response \<Rightarrow> bool" where
  "is_success resp = (200 \<le> status_code resp \<and> status_code resp \<le> 299)"

definition raise_for_status :: "response \<Rightarrow> error + unit" where
  "raise_for_status resp =
     (if is_success resp then Inr ()
      else Inl (HTTPStatusError (status_code resp) (content resp)))"

definition response_json :: "decoder \<Rightarrow> response \<Rightarrow> error + json" where
  "response_json loads resp =
     (case loads (content resp) of None \<Rightarrow> Inl JSONDecodeError | Some j \<Rightarrow> Inr j)"

section \<open>The four handlers\<close>

text \<open>
  Each handler takes the process environment (for the token read at start), the
  upstream service, the decoder, its own arguments (an optional argument is \<open>None\<close>
  when the caller leaves it out) and the log of calls issued so far; it returns what the
  Python function returns or raises, and the new log.
\<close>

definition search ::
  "environ \<Rightarrow> upstream \<Rightarrow> decoder \<Rightarrow> string \<Rightarrow> int option \<Rightarrow> request list
     \<Rightarrow> (error + json) \<times> request list" where
  "search env up loads query count_arg calls =
     (let count = (case count_arg of None \<Rightarrow> 10 | Some c \<Rightarrow> c);
          params = [(''count'', str_int count)];
          body = JObj [(''query'', JStr query)];
          (sent, calls') = httpx_post up (FEEDLY_BASE @ ''/search/contents'')
                             params body (HEADERS env) 30 calls
      in (case sent of
            Inl e \<Rightarrow> Inl e
          | Inr resp \<Rightarrow>
              (case raise_for_status resp of
                 Inl e \<Rightarrow> Inl e
               | Inr _ \<Rightarrow> response_json loads resp),
          calls'))"

definition collect ::
  "environ \<Rightarrow> upstream \<Rightarrow> decoder \<Rightarrow> string \<Rightarrow> int option \<Rightarrow> string option \<Rightarrow> request list
     \<Rightarrow> (error + json) \<times> request list" where
  "collect env up loads stream_id count_arg continuation calls =
     (let count = (case count_arg of None \<Rightarrow> 20 | Some c \<Rightarrow> c);
          params = [(''streamId'', stream_id), (''count'', str_int count)];
          params = (if truthy continuation
                    then AList.update ''continuation'' (the continuation) params
                    else params);
          (sent, calls') = httpx_get up (FEEDLY_BASE @ ''/streams/contents'')
                             params (HEADERS env) 30 calls
      in (case sent of
            Inl e \<Rightarrow> Inl e
          | Inr resp \<Rightarrow>
              (case raise_for_status resp of
                 Inl e \<Rightarrow> Inl e
               | Inr _ \<Rightarrow> response_json loads resp),
          calls'))"

definition entity_lookup ::
  "environ \<Rightarrow> upstream \<Rightarrow> decoder \<Rightarrow> string \<Rightarrow> request list
     \<Rightarrow> (error + json) \<times> request list" where
  "entity_lookup env up loads entity_id calls =
     (let encoded = quote_plus entity_id;
          (sent, calls') = httpx_get up (FEEDLY_BASE @ ''/entities/'' @ encoded)
                             [] (HEADERS env) 30 calls
      in (case sent of
            Inl e \<Rightarrow> Inl e
          | Inr resp \<Rightarrow>
              (case raise_for_status resp of
                 Inl e \<Rightarrow> Inl e
               | Inr _ \<Rightarrow> response_json loads resp),
          calls'))"

definition autocomplete_entities ::
  "environ \<Rightarrow> upstream \<Rightarrow> decoder \<Rightarrow> string \<Rightarrow> int option \<Rightarrow> request list
     \<Rightarrow> (error + json) \<times> request list" where
  "autocomplete_entities env up loads prefix count_arg calls =
     (let count = (case count_arg of None \<Rightarrow> 10 | Some c \<Rightarrow> c);
          params = [(''prefix'', prefix), (''count'', str_int count)];
          (sent, calls') = httpx_get up (FEEDLY_BASE @ ''/entities/autocomplete'')
                             params (HEADERS env) 30 calls
      in (case sent of
            Inl e \<Rightarrow> Inl e
          | Inr resp \<Rightarrow>
              (case raise_for_status resp of
                 Inl e \<Rightarrow> Inl e
               | Inr _ \<Rightarrow> response_json loads resp),
          calls'))"

text \<open>
  What the three lines after the HTTP call make of the upstream's answer, as one
  function (derived from the handlers, for stating their behaviour): the transport
  error when there is no answer, the status error when the status is outside the
  success range, and otherwise the decoded body or the decoding error.
\<close>

definition reply :: "decoder \<Rightarrow> response option \<Rightarrow> error + json" where
  "reply loads a =
     (case a of
        None \<Rightarrow> Inl TransportError
      | Some resp \<Rightarrow>
          if is_success resp then response_json loads resp
          else Inl (HTTPStatusError (status_code resp) (content resp)))"

text \<open>An invocation of any one of the four handlers, with its arguments.\<close>

datatype invocation =
    Search string "int option"
  | Collect string "int option" "string option"
  | Entity_lookup string
  | Autocomplete string "int option"

fun invoke ::
  "environ \<Rightarrow> upstream \<Rightarrow> decoder \<Rightarrow> invocation \<Rightarrow> request list
     \<Rightarrow> (error + json) \<times> request list" where
  "invoke env up loads (Search query count_arg) = search env up loads query count_arg"
| "invoke env up loads (Collect stream_id count_arg continuation) =
     collect env up loads stream_id count_arg continuation"
| "invoke env up loads (Entity_lookup entity_id) = entity_lookup env up loads entity_id"
| "invoke env up loads (Autocomplete prefix count_arg) =
     autocomplete_entities env up loads prefix count_arg"

section \<open>The tool registry and the dispatcher\<close>

text \<open>
  \<^verbatim>\<open>server.py\<close> registers the handlers with the decorator \<^verbatim>\<open>mcp.tool\<close>, in the order
  search, collect, entity lookup, autocomplete. The registry and the dispatcher
  themselves belong to the tool-protocol library; they are modelled from the
  specification (its sections 3 and 4.3).
\<close>

datatype ptype = PString | PInteger | POptString

record tool =
  tool_name :: string
  tool_description :: string
  tool_schema :: "(string \<times> ptype \<times> bool) list"
  tool_handler ::
    "environ \<Rightarrow> upstream \<Rightarrow> decoder \<Rightarrow> (string \<rightharpoonup> json) \<Rightarrow> request list
       \<Rightarrow> (error + json) \<times> request list"

record server =
  registry :: "tool list"
  issued :: "request list"

text \<open>
  Modelled from the spec: the registration step of the library (\<^verbatim>\<open>mcp.tool\<close>). A
  descriptor is appended to the registry, so the registry keeps registration order; a
  name that is already registered is a failure, and startup aborts on it.
\<close>

definition mcp_tool :: "tool \<Rightarrow> tool list \<Rightarrow> error + tool list" where
  "mcp_tool t reg =
     (if tool_name t \<in> set (map tool_name reg) then Inl (DuplicateTool (tool_name t))
      else Inr (reg @ [t]))"

text \<open>
  Modelled from the spec: the dispatcher checks the arguments against the declared
  schema before it invokes the handler. A schema entry is a parameter name, its type,
  and whether it is required (it has no default).
\<close>

fun has_type :: "ptype \<Rightarrow> json \<Rightarrow> bool" where
  "has_type PString (JStr s) = True"
| "has_type PInteger (JInt i) = True"
| "has_type POptString (JStr s) = True"
| "has_type POptString JNull = True"
| "has_type t j = False"

fun valid_args :: "(string \<times> ptype \<times> bool) list \<Rightarrow> (string \<rightharpoonup> json) \<Rightarrow> bool" where
  "valid_args [] args = True"
| "valid_args ((k, t, required) # ps) args =
     ((case args k of None \<Rightarrow> \<not> required | Some v \<Rightarrow> has_type t v) \<and> valid_args ps args)"

fun str_arg :: "json option \<Rightarrow> string option" where
  "str_arg (Some (JStr s)) = Some s"
| "str_arg v = None"

fun int_arg :: "json option \<Rightarrow> int option" where
  "int_arg (Some (JInt i)) = Some i"
| "int_arg v = None"

text \<open>
  The four descriptors, with the names and descriptions of the decorators and the
  parameters of the Python signatures. Each handler field binds the named arguments to
  the positional parameters of the handler.
\<close>

definition search_tool :: tool where
  "search_tool =
     \<lparr>tool_name = ''feedly.search'',
      tool_description = ''Full-text or NLP Layer search against Feedly work-space'',
      tool_schema = [(''query'', PString, True), (''count'', PInteger, False)],
      tool_handler = (\<lambda>env up loads args.
         search env up loads (the (str_arg (args ''query''))) (int_arg (args ''count'')))\<rparr>"

definition collect_tool :: tool where
  "collect_tool =
     \<lparr>tool_name = ''feedly.collect'',
      tool_description = ''Fetch articles from a Feedly StreamID (team feed, board, ''
        @ [CHR 0xE2, CHR 0x80, CHR 0xA6] @ '')'',
      tool_schema = [(''stream_id'', PString, True), (''count'', PInteger, False),
                     (''continuation'', POptString, False)],
      tool_handler = (\<lambda>env up loads args.
         collect env up loads (the (str_arg (args ''stream_id''))) (int_arg (args ''count''))
           (str_arg (args ''continuation'')))\<rparr>"

definition entity_lookup_tool :: tool where
  "entity_lookup_tool =
     \<lparr>tool_name = ''feedly.entity_lookup'',
      tool_description = ''Return metadata about a single NLP entity ID.'',
      tool_schema = [(''entity_id'', PString, True)],
      tool_handler = (\<lambda>env up loads args.
         entity_lookup env up loads (the (str_arg (args ''entity_id''))))\<rparr>"

definition autocomplete_tool :: tool where
  "autocomplete_tool =
     \<lparr>tool_name = ''feedly.autocomplete'',
      tool_description = ''Suggest entity IDs that match a text prefix.'',
      tool_schema = [(''prefix'', PString, True), (''count'', PInteger, False)],
      tool_handler = (\<lambda>env up loads args.
         autocomplete_entities env up loads (the (str_arg (args ''prefix'')))
           (int_arg (args ''count'')))\<rparr>"

text \<open>
  Loading the module: the four decorators run top to bottom on an empty registry. The
  token is read by \<open>TOKEN\<close> from the environment the process starts with; reading it
  cannot fail.
\<close>

definition register_all :: "error + tool list" where
  "register_all =
     (case mcp_tool search_tool [] of Inl e \<Rightarrow> Inl e | Inr r1 \<Rightarrow>
      (case mcp_tool collect_tool r1 of Inl e \<Rightarrow> Inl e | Inr r2 \<Rightarrow>
       (case mcp_tool entity_lookup_tool r2 of Inl e \<Rightarrow> Inl e | Inr r3 \<Rightarrow>
        mcp_tool autocomplete_tool r3)))"

definition startup :: "environ \<Rightarrow> error + server" where
  "startup env =
     (case register_all of
        Inl e \<Rightarrow> Inl e
      | Inr reg \<Rightarrow> Inr \<lparr>registry = reg, issued = []\<rparr>)"

text \<open>
  Modelled from the spec: the two operations of the dispatcher. \<open>listTools\<close> returns
  the descriptors in registry order and leaves the state alone. \<open>callTool\<close> fails on
  an unknown name or on arguments that do not fit the schema, without any upstream call;
  otherwise it runs the handler and passes on what the handler returns or raises.
\<close>

definition listTools :: "server \<Rightarrow> tool list \<times> server" where
  "listTools s = (registry s, s)"

definition callTool ::
  "environ \<Rightarrow> upstream \<Rightarrow> decoder \<Rightarrow> string \<Rightarrow> (string \<rightharpoonup> json) \<Rightarrow> server
     \<Rightarrow> (error + json) \<times> server" where
  "callTool env up loads name args s =
     (case find (\<lambda>t. tool_name t = name) (registry s) of
        None \<Rightarrow> (Inl (UnknownTool name), s)
      | Some t \<Rightarrow>
          if \<not> valid_args (tool_schema t) args then (Inl (InvalidArguments name), s)
          else (let (res, calls') = tool_handler t env up loads args (issued s)
                in (res, s\<lparr>issued := calls'\<rparr>)))"

text \<open>
  The states the server can be in: the state after startup, and every state that a
  \<open>listTools\<close> or a \<open>callTool\<close> request leads to, whatever the upstream answers.
\<close>

inductive reachable :: "environ \<Rightarrow> server \<Rightarrow> bool" for env :: environ where
  start: "startup env = Inr s \<Longrightarrow> reachable env s"
| list: "reachable env s \<Longrightarrow> reachable env (snd (listTools s))"
| call: "reachable env s \<Longrightarrow> reachable env (snd (callTool env up loads name args s))"

section \<open>The invocation client\<close>

text \<open>
  \<^verbatim>\<open>client.py\<close>. The command line, as the argument parser receives it: the positional
  tool name and the two flags, each given or not. The parser applies the defaults and
  runs the \<^verbatim>\<open>--args\<close> text (the default text \<^verbatim>\<open>{}\<close> as well) through the JSON decoder;
  text that does not decode is a usage error, which ends the process with status 2.
\<close>

record cmdline =
  arg_tool :: string
  flag_url :: "string option"
  flag_args :: "string option"

record opts =
  opt_tool :: string
  opt_url :: string
  opt_args :: json

definition parse_args :: "decoder \<Rightarrow> cmdline \<Rightarrow> string + opts" where
  "parse_args loads cmd =
     (case loads (case flag_args cmd of None \<Rightarrow> ''{}'' | Some a \<Rightarrow> a) of
        None \<Rightarrow> Inl ''argument --args: invalid loads value''
      | Some j \<Rightarrow>
          Inr \<lparr>opt_tool = arg_tool cmd,
               opt_url = (case flag_url cmd of None \<Rightarrow> ''http://localhost:8080'' | Some u \<Rightarrow> u),
               opt_args = j\<rparr>)"

text \<open>
  The server as the client meets it: opening the transport, the handshake and the tool
  call each succeed or raise an exception, given by its message; a tool call that
  succeeds gives the result as the structure that \<^verbatim>\<open>model_dump\<close> makes of it. What the
  client does is recorded as a list of events; leaving a \<^verbatim>\<open>with\<close> block that was entered
  closes the session.
\<close>

record peer =
  connect :: "string \<Rightarrow> string option"
  initialize :: "string option"
  call_tool :: "string \<Rightarrow> json \<Rightarrow> string + json"

datatype event =
    Open_session string
  | Initialize
  | Call_tool string json
  | Print json
  | Close_session

definition run :: "peer \<Rightarrow> string \<Rightarrow> string \<Rightarrow> json \<Rightarrow> (string + unit) \<times> event list" where
  "run p u tool args =
     (case connect p u of
        Some e \<Rightarrow> (Inl e, [Open_session u])
      | None \<Rightarrow>
          (case initialize p of
             Some e \<Rightarrow> (Inl e, [Open_session u, Initialize, Close_session])
           | None \<Rightarrow>
               (case call_tool p tool args of
                  Inl e \<Rightarrow> (Inl e, [Open_session u, Initialize, Call_tool tool args, Close_session])
                | Inr result \<Rightarrow>
                    (Inr (), [Open_session u, Initialize, Call_tool tool args, Print result,
                              Close_session]))))"

fun is_call :: "event \<Rightarrow> bool" where
  "is_call (Call_tool t a) = True"
| "is_call e = False"

text \<open>
  The process: an exception that nothing catches ends it with status 1 and its message
  on standard error (the behaviour of the Python runtime); a normal end is status 0.
\<close>

record outcome =
  exit_status :: nat
  stderr :: "string list"
  events :: "event list"

definition main :: "decoder \<Rightarrow> peer \<Rightarrow> cmdline \<Rightarrow> outcome" where
  "main loads p cmd =
     (case parse_args loads cmd of
        Inl msg \<Rightarrow> \<lparr>exit_status = 2, stderr = [msg], events = []\<rparr>
      | Inr opts \<Rightarrow>
          (case run p (opt_url opts) (opt_tool opts) (opt_args opts) of
             (Inl msg, evs) \<Rightarrow> \<lparr>exit_status = 1, stderr = [msg], events = evs\<rparr>
           | (Inr _, evs) \<Rightarrow> \<lparr>exit_status = 0, stderr = [], events = evs\<rparr>))"

section \<open>Percent-encoding, as the specification words it\<close>

text \<open>
  The specification asks for the entity id to be percent-encoded. This is the encoding
  by its usual definition, written independently of the code: a byte that is an
  unreserved character (a letter, a digit, hyphen, period, underscore or tilde) stays,
  and any other byte becomes a percent sign and the two upper-case hexadecimal digits of
  its value.
\<close>

definition unreserved :: "char \<Rightarrow> bool" where
  "unreserved c =
     (c \<in> set ''abcdefghijklmnopqrstuvwxyz'' \<or> c \<in> set ''ABCDEFGHIJKLMNOPQRSTUVWXYZ''
      \<or> c \<in> set ''0123456789'' \<or> c \<in> set ''-._~'')"

definition hex_upper :: "nat \<Rightarrow> char" where
  "hex_upper d = (if d < 10 then char_of (48 + d) else char_of (55 + d))"

definition percent_encode_byte :: "char \<Rightarrow> string" where
  "percent_encode_byte c =
     (if unreserved c then [c]
      else [CHR ''%'', hex_upper (of_char c div 16), hex_upper (of_char c mod 16)])"

definition percent_encode :: "string \<Rightarrow> string" where
  "percent_encode s = concat (map percent_encode_byte s)"

section \<open>Decimal numerals, read back\<close>

text \<open>
  The specification sends the count as a query parameter, that is, as the decimal
  numeral of the integer. This is the reading of such a numeral, written independently
  of the code that prints it: a non-empty string of digits without a leading zero
  (except the numeral \<^verbatim>\<open>0\<close> itself) is read in base ten, and a minus sign in front of the
  numeral of a positive number negates it. Every integer has exactly one numeral.
\<close>

definition is_digit :: "char \<Rightarrow> bool" where
  "is_digit c = (c \<in> set ''0123456789'')"

definition digit_value :: "char \<Rightarrow> nat" where
  "digit_value c = of_char c - 48"

definition decimal_value :: "string \<Rightarrow> nat" where
  "decimal_value s = foldl (\<lambda>a c. 10 * a + digit_value c) 0 s"

definition read_nat :: "string \<Rightarrow> nat option" where
  "read_nat s =
     (if s \<noteq> [] \<and> list_all is_digit s \<and> (1 < length s \<longrightarrow> hd s \<noteq> CHR ''0'')
      then Some (decimal_value s) else None)"

definition read_int :: "string \<Rightarrow> int option" where
  "read_int s =
     (case s of
        [] \<Rightarrow> None
      | c # ds \<Rightarrow>
          if c = CHR ''-'' then
            (case read_nat ds of
               None \<Rightarrow> None
             | Some n \<Rightarrow> if n = 0 then None else Some (- int n))
          else map_option int (read_nat s))"

section \<open>Sample surroundings\<close>

text \<open>
  Concrete environments, upstream services and decoders, on which the theorems below
  are instantiated.
\<close>

definition env_unset :: environ where
  "env_unset k = None"

definition env_secret :: environ where
  "env_secret k = (if k = ''FEEDLY_TOKEN'' then Some ''s3cr3t'' else None)"

definition env_other :: environ where
  "env_other k = (if k = ''FEEDLY_TOKEN'' then Some ''0ther'' else None)"

definition up_down :: upstream where
  "up_down r = None"

definition up_ok :: upstream where
  "up_ok r = Some \<lparr>status_code = 200, content = ''{}''\<rparr>"

definition up_500 :: upstream where
  "up_500 r = Some \<lparr>status_code = 500, content = ''boom''\<rparr>"

definition loads_sample :: decoder where
  "loads_sample b = (if b = ''{}'' then Some (JObj []) else None)"

definition args_sample :: "string \<rightharpoonup> json" where
  "args_sample k = (if k = ''query'' then Some (JStr ''rust'') else None)"

definition peer_ok :: peer where
  "peer_ok = \<lparr>connect = (\<lambda>u. None), initialize = None,
              call_tool = (\<lambda>t a. Inr (JObj [(''isError'', JBool False)]))\<rparr>"

definition peer_refusing :: peer where
  "peer_refusing = \<lparr>connect = (\<lambda>u. Some ''connection refused''), initialize = None,
                    call_tool = (\<lambda>t a. Inr JNull)\<rparr>"

section \<open>What each handler does, in one equation\<close>

lemma url_search:
  "httpx_url (FEEDLY_BASE @ ''/search/contents'') = ''https://api.feedly.com/v3/search/contents''"
  by code_simp

lemma url_streams:
  "httpx_url (FEEDLY_BASE @ ''/streams/contents'') = ''https://api.feedly.com/v3/streams/contents''"
  by code_simp

lemma url_autocomplete:
  "httpx_url (FEEDLY_BASE @ ''/entities/autocomplete'')
     = ''https://api.feedly.com/v3/entities/autocomplete''"
  by code_simp

lemma search_run:
  "search env up loads q c calls =
     (let r = \<lparr>verb = POST, url = ''https://api.feedly.com/v3/search/contents'',
                params = [(''count'', str_int (case c of None \<Rightarrow> 10 | Some n \<Rightarrow> n))],
                json_body = Some (JObj [(''query'', JStr q)]),
                headers = HEADERS env, timeout = 30\<rparr>
      in (reply loads (up r), calls @ [r]))"
  by (simp add: search_def httpx_post_def send_def raise_for_status_def reply_def Let_def
           url_search split: option.splits)

lemma collect_run:
  "collect env up loads sid c cont calls =
     (let r = \<lparr>verb = GET, url = ''https://api.feedly.com/v3/streams/contents'',
                params = [(''streamId'', sid),
                          (''count'', str_int (case c of None \<Rightarrow> 20 | Some n \<Rightarrow> n))]
                         @ (if truthy cont then [(''continuation'', the cont)] else []),
                json_body = None, headers = HEADERS env, timeout = 30\<rparr>
      in (reply loads (up r), calls @ [r]))"
  by (simp add: collect_def httpx_get_def send_def raise_for_status_def reply_def Let_def
           url_streams split: option.splits)

lemma entity_lookup_run:
  "entity_lookup env up loads eid calls =
     (let r = \<lparr>verb = GET, url = httpx_url (FEEDLY_BASE @ ''/entities/'' @ quote_plus eid),
                params = [], json_body = None, headers = HEADERS env, timeout = 30\<rparr>
      in (reply loads (up r), calls @ [r]))"
  by (simp add: entity_lookup_def httpx_get_def send_def raise_for_status_def reply_def Let_def
           split: option.splits)

lemma autocomplete_entities_run:
  "autocomplete_entities env up loads pre c calls =
     (let r = \<lparr>verb = GET, url = ''https://api.feedly.com/v3/entities/autocomplete'',
                params = [(''prefix'', pre),
                          (''count'', str_int (case c of None \<Rightarrow> 10 | Some n \<Rightarrow> n))],
                json_body = None, headers = HEADERS env, timeout = 30\<rparr>
      in (reply loads (up r), calls @ [r]))"
  by (simp add: autocomplete_entities_def httpx_get_def send_def raise_for_status_def
           reply_def Let_def url_autocomplete split: option.splits)

lemma invoke_one_call:
  "\<exists>r. invoke env up loads iv calls = (reply loads (up r), calls @ [r])
       \<and> headers r = HEADERS env \<and> timeout r = 30"
  by (cases iv)
     (simp_all add: search_run collect_run entity_lookup_run autocomplete_entities_run Let_def)

lemma str_int_20: "str_int 20 = ''20''"
  by code_simp

lemma str_int_10: "str_int 10 = ''10''"
  by code_simp

lemma HEADERS_eq:
  "HEADERS env =
     [(''Authorization'',
       ''Bearer '' @ (case env ''FEEDLY_TOKEN'' of None \<Rightarrow> ''None'' | Some t \<Rightarrow> t)),
      (''accept'', ''application/json'')]"
  by (simp add: HEADERS_def TOKEN_def os_getenv_def format_str_def)

section \<open>The collect handler\<close>

text \<open>
  Claim C1, as amended. A call of the collect handler with stream id \<open>S\<close>, count 20
  (given, or left to its default) and no continuation issues exactly one upstream GET
  to the stream-contents endpoint, with the parameters \<open>streamId = S\<close> and
  \<open>count = "20"\<close> and no continuation key. A call that supplies a non-empty
  continuation string issues the same request with exactly the key \<open>continuation\<close>,
  bound to that string, added.
\<close>

theorem collect_query_parameters:
  "c \<in> {None, Some 20} \<Longrightarrow>
   snd (collect env up loads S c None calls) =
     calls @ [\<lparr>verb = GET, url = ''https://api.feedly.com/v3/streams/contents'',
               params = [(''streamId'', S), (''count'', ''20'')],
               json_body = None, headers = HEADERS env, timeout = 30\<rparr>]
   \<and> (k \<noteq> [] \<longrightarrow>
        snd (collect env up loads S c (Some k) calls) =
          calls @ [\<lparr>verb = GET, url = ''https://api.feedly.com/v3/streams/contents'',
                    params = [(''streamId'', S), (''count'', ''20''), (''continuation'', k)],
                    json_body = None, headers = HEADERS env, timeout = 30\<rparr>])"
  by (auto simp add: collect_run Let_def truthy_def str_int_20 FEEDLY_BASE_def)

theorem collect_query_parameters_witness:
  "snd (collect env_secret up_ok loads_sample ''feed/1'' None None []) =
     [\<lparr>verb = GET, url = ''https://api.feedly.com/v3/streams/contents'',
       params = [(''streamId'', ''feed/1''), (''count'', ''20'')],
       json_body = None, headers = HEADERS env_secret, timeout = 30\<rparr>]
   \<and> snd (collect env_secret up_ok loads_sample ''feed/1'' None (Some ''p2'') []) =
     [\<lparr>verb = GET, url = ''https://api.feedly.com/v3/streams/contents'',
       params = [(''streamId'', ''feed/1''), (''count'', ''20''), (''continuation'', ''p2'')],
       json_body = None, headers = HEADERS env_secret, timeout = 30\<rparr>]"
  using collect_query_parameters [where c = None and k = "''p2''" and env = env_secret
        and up = up_ok and loads = loads_sample and S = "''feed/1''" and calls = "[]"]
  by simp

text \<open>
  The claim as first stated fails: the empty string is a continuation string, and the
  call that supplies it issues no continuation key.
\<close>

theorem collect_empty_continuation_counterexample:
  "params (last (snd (collect env_secret up_ok loads_sample ''feed/1'' (Some 20) (Some '''') [])))
     = [(''streamId'', ''feed/1''), (''count'', ''20'')]"
  by (simp add: collect_run Let_def truthy_def str_int_20)

text \<open>
  Claim C10. A call of the collect handler that supplies the empty string as
  continuation issues its GET without a continuation parameter; the key is among the
  parameters exactly when the supplied value is a non-empty string.
\<close>

theorem collect_falsy_continuation:
  "snd (collect env up loads S c (Some []) calls) =
     calls @ [\<lparr>verb = GET, url = ''https://api.feedly.com/v3/streams/contents'',
               params = [(''streamId'', S),
                         (''count'', str_int (case c of None \<Rightarrow> 20 | Some n \<Rightarrow> n))],
               json_body = None, headers = HEADERS env, timeout = 30\<rparr>]
   \<and> (''continuation'' \<in> fst ` set (params (last (snd (collect env up loads S c cont calls))))
        \<longleftrightarrow> (\<exists>k. cont = Some k \<and> k \<noteq> []))"
  by (cases cont) (auto simp add: collect_run Let_def truthy_def FEEDLY_BASE_def)

theorem collect_falsy_continuation_witness:
  "snd (collect env_unset up_down loads_sample ''feed/2'' (Some 5) (Some []) []) =
     [\<lparr>verb = GET, url = ''https://api.feedly.com/v3/streams/contents'',
       params = [(''streamId'', ''feed/2''), (''count'', ''5'')],
       json_body = None, headers = HEADERS env_unset, timeout = 30\<rparr>]"
proof -
  have "str_int 5 = ''5''" by code_simp
  with collect_falsy_continuation [where env = env_unset and up = up_down
        and loads = loads_sample and S = "''feed/2''" and c = "Some 5" and calls = "[]"
        and cont = None]
  show ?thesis by simp
qed

section \<open>Upstream failures and results\<close>

text \<open>
  Claim C3. Every invocation of a handler issues exactly one upstream call (no retry).
  When the upstream answers with a status outside the success range 200..299 (500, for
  one), the handler raises the status error that carries the status and the response
  body; nothing in the handler catches it, so this error is what the caller of the
  handler, the dispatcher, receives. When the status is in the success range, the
  handler returns the decoded JSON body.
\<close>

theorem status_error_surfaced:
  "\<exists>r. snd (invoke env up loads iv calls) = calls @ [r]
     \<and> (\<forall>resp. up r = Some resp \<longrightarrow>
          (\<not> (200 \<le> status_code resp \<and> status_code resp \<le> 299) \<longrightarrow>
             fst (invoke env up loads iv calls)
               = Inl (HTTPStatusError (status_code resp) (content resp)))
          \<and> (200 \<le> status_code resp \<and> status_code resp \<le> 299 \<longrightarrow>
               (\<forall>j. loads (content resp) = Some j \<longrightarrow>
                  fst (invoke env up loads iv calls) = Inr j)))"
proof -
  obtain r where r: "invoke env up loads iv calls = (reply loads (up r), calls @ [r])"
    using invoke_one_call by blast
  have "\<forall>resp. up r = Some resp \<longrightarrow>
          (\<not> (200 \<le> status_code resp \<and> status_code resp \<le> 299) \<longrightarrow>
             reply loads (up r) = Inl (HTTPStatusError (status_code resp) (content resp)))
          \<and> (200 \<le> status_code resp \<and> status_code resp \<le> 299 \<longrightarrow>
               (\<forall>j. loads (content resp) = Some j \<longrightarrow> reply loads (up r) = Inr j))"
    by (simp add: reply_def response_json_def is_success_def)
  with r show ?thesis by simp
qed

theorem status_error_surfaced_witness:
  "invoke env_secret up_500 loads_sample (Search ''rust'' None) []
     = (Inl (HTTPStatusError 500 ''boom''),
        [\<lparr>verb = POST, url = ''https://api.feedly.com/v3/search/contents'',
          params = [(''count'', ''10'')], json_body = Some (JObj [(''query'', JStr ''rust'')]),
          headers = HEADERS env_secret, timeout = 30\<rparr>])"
proof -
  from status_error_surfaced [of env_secret up_500 loads_sample "Search ''rust'' None" "[]"]
  obtain r where r: "snd (invoke env_secret up_500 loads_sample (Search ''rust'' None) []) = [r]"
    and e: "fst (invoke env_secret up_500 loads_sample (Search ''rust'' None) [])
              = Inl (HTTPStatusError 500 ''boom'')"
    by (auto simp add: up_500_def)
  have "snd (invoke env_secret up_500 loads_sample (Search ''rust'' None) [])
          = [\<lparr>verb = POST, url = ''https://api.feedly.com/v3/search/contents'',
          params = [(''count'', ''10'')], json_body = Some (JObj [(''query'', JStr ''rust'')]),
          headers = HEADERS env_secret, timeout = 30\<rparr>]"
    by (simp add: search_run Let_def str_int_10 FEEDLY_BASE_def)
  with e show ?thesis by (simp add: prod_eq_iff)
qed

section \<open>The search handler\<close>

subsection \<open>The printed count reads back as the count\<close>

lemma digit_table:
  "list_all (\<lambda>d. is_digit (digit_char d) \<and> digit_value (digit_char d) = d
                 \<and> (digit_char d = CHR ''0'') = (d = 0) \<and> digit_char d \<noteq> CHR ''-'') [0..<10]"
  by code_simp

lemma digit_char_props:
  "d < 10 \<Longrightarrow> is_digit (digit_char d) \<and> digit_value (digit_char d) = d
                 \<and> (digit_char d = CHR ''0'') = (d = 0) \<and> digit_char d \<noteq> CHR ''-''"
  using digit_table unfolding list_all_iff by simp

lemma str_nat_nonempty: "str_nat n \<noteq> []"
  by (subst str_nat.simps) simp

lemma str_nat_digits: "list_all is_digit (str_nat n)"
proof (induction n rule: str_nat.induct)
  case (1 n)
  show ?case
  proof (cases "n < 10")
    case True
    then show ?thesis by (subst str_nat.simps) (simp add: digit_char_props)
  next
    case False
    with 1 have "list_all is_digit (str_nat (n div 10))" by simp
    moreover have "is_digit (digit_char (n mod 10))" by (simp add: digit_char_props)
    ultimately show ?thesis using False by (subst str_nat.simps) simp
  qed
qed

lemma decimal_value_snoc: "decimal_value (s @ [c]) = 10 * decimal_value s + digit_value c"
  by (simp add: decimal_value_def)

lemma decimal_value_str_nat: "decimal_value (str_nat n) = n"
proof (induction n rule: str_nat.induct)
  case (1 n)
  show ?case
  proof (cases "n < 10")
    case True
    then show ?thesis
      by (subst str_nat.simps) (simp add: decimal_value_def digit_char_props)
  next
    case False
    with 1 have "decimal_value (str_nat (n div 10)) = n div 10" by simp
    then show ?thesis using False
      by (subst str_nat.simps) (simp add: decimal_value_snoc digit_char_props)
  qed
qed

lemma hd_str_nat: "(hd (str_nat n) = CHR ''0'') = (n = 0)"
proof (induction n rule: str_nat.induct)
  case (1 n)
  show ?case
  proof (cases "n < 10")
    case True
    then show ?thesis by (subst str_nat.simps) (simp add: digit_char_props)
  next
    case False
    with 1 have "(hd (str_nat (n div 10)) = CHR ''0'') = (n div 10 = 0)" by simp
    moreover from False have "n div 10 \<noteq> 0" by simp
    ultimately show ?thesis using False
      by (subst str_nat.simps) (simp add: str_nat_nonempty)
  qed
qed

lemma hd_str_nat_digit: "hd (str_nat n) \<noteq> CHR ''-''"
proof -
  have "is_digit (hd (str_nat n))"
    using str_nat_digits [of n] str_nat_nonempty [of n]
    by (cases "str_nat n") simp_all
  then show ?thesis by (auto simp add: is_digit_def)
qed

lemma length_str_nat: "1 < length (str_nat n) \<Longrightarrow> n \<noteq> 0"
  by (subst (asm) str_nat.simps) (auto split: if_splits)

lemma read_nat_str_nat: "read_nat (str_nat n) = Some n"
  using length_str_nat [of n]
  by (auto simp add: read_nat_def str_nat_nonempty str_nat_digits decimal_value_str_nat hd_str_nat)

lemma read_int_str_int: "read_int (str_int i) = Some i"
proof (cases "i < 0")
  case True
  then show ?thesis by (simp add: str_int_def read_int_def read_nat_str_nat)
next
  case False
  obtain c ds where s: "str_nat (nat i) = c # ds"
    using str_nat_nonempty [of "nat i"] by (cases "str_nat (nat i)") auto
  with hd_str_nat_digit [of "nat i"] have "c \<noteq> CHR ''-''" by simp
  moreover have "read_nat (c # ds) = Some (nat i)" using read_nat_str_nat [of "nat i"] s by simp
  ultimately show ?thesis using False s by (simp add: str_int_def read_int_def)
qed


lemma digit_chars:
  "list_all (\<lambda>c. digit_value c < 10 \<and> digit_char (digit_value c) = c) ''0123456789''"
  by code_simp

lemma is_digit_props: "is_digit c \<Longrightarrow> digit_value c < 10 \<and> digit_char (digit_value c) = c"
  using digit_chars unfolding list_all_iff is_digit_def by blast

lemma read_nat_unique: "read_nat s = Some n \<Longrightarrow> s = str_nat n"
proof (induction s arbitrary: n rule: rev_induct)
  case Nil
  then show ?case by (simp add: read_nat_def)
next
  case (snoc c xs)
  from snoc.prems have digs: "list_all is_digit xs" and c: "is_digit c"
    and canon: "1 < length (xs @ [c]) \<longrightarrow> hd (xs @ [c]) \<noteq> CHR ''0''"
    and n: "n = 10 * decimal_value xs + digit_value c"
    by (auto simp add: read_nat_def decimal_value_snoc split: if_splits)
  from c have cv: "digit_value c < 10" and cc: "digit_char (digit_value c) = c"
    by (simp_all add: is_digit_props)
  show ?case
  proof (cases "xs = []")
    case True
    with n cv cc show ?thesis
      by (subst str_nat.simps) (simp add: decimal_value_def)
  next
    case False
    with canon have h: "hd xs \<noteq> CHR ''0''" by (cases xs) simp_all
    with False digs have "read_nat xs = Some (decimal_value xs)" by (simp add: read_nat_def)
    then have xs: "xs = str_nat (decimal_value xs)" by (rule snoc.IH)
    with h hd_str_nat [of "decimal_value xs"] have "decimal_value xs \<noteq> 0" by auto
    with n cv have "\<not> n < 10" and "n div 10 = decimal_value xs" and "n mod 10 = digit_value c"
      by simp_all
    with xs cc show ?thesis by (subst str_nat.simps) simp
  qed
qed

lemma read_int_unique: "read_int s = Some i \<Longrightarrow> s = str_int i"
proof (cases s)
  case Nil
  assume "read_int s = Some i"
  with Nil show ?thesis by (simp add: read_int_def)
next
  case (Cons c ds)
  assume r: "read_int s = Some i"
  show ?thesis
  proof (cases "c = CHR ''-''")
    case True
    with r Cons obtain n where "read_nat ds = Some n" and "n \<noteq> 0" and "i = - int n"
      by (auto simp add: read_int_def split: option.splits if_splits)
    then show ?thesis using Cons True by (simp add: str_int_def read_nat_unique)
  next
    case False
    with r Cons obtain n where "read_nat s = Some n" and "i = int n"
      by (auto simp add: read_int_def)
    then show ?thesis by (simp add: str_int_def read_nat_unique)
  qed
qed

subsection \<open>The request\<close>

text \<open>
  Claim C5. For every query string the search handler issues exactly one upstream POST
  to the search endpoint, with the JSON body \<open>{"query": query}\<close> and, as the only query
  parameter, \<open>count\<close>, whose text is the decimal numeral of the count: it reads back as
  the count, and it is the only text that does. Leaving the count out is the same as
  giving 10. When the upstream answers in the success range with a body that decodes,
  the handler returns the decoded body.
\<close>

theorem search_one_post:
  "(\<exists>t. snd (search env up loads q c calls) =
          calls @ [\<lparr>verb = POST, url = ''https://api.feedly.com/v3/search/contents'',
                    params = [(''count'', t)],
                    json_body = Some (JObj [(''query'', JStr q)]),
                    headers = HEADERS env, timeout = 30\<rparr>]
        \<and> read_int t = Some (case c of None \<Rightarrow> 10 | Some n \<Rightarrow> n)
        \<and> (\<forall>s. read_int s = Some (case c of None \<Rightarrow> 10 | Some n \<Rightarrow> n) \<longrightarrow> s = t))
   \<and> search env up loads q None calls = search env up loads q (Some 10) calls
   \<and> params (last (snd (search env up loads q None calls))) = [(''count'', ''10'')]
   \<and> (up (last (snd (search env up loads q c calls))) = Some resp
        \<and> 200 \<le> status_code resp \<and> status_code resp \<le> 299
        \<and> loads (content resp) = Some j
      \<longrightarrow> fst (search env up loads q c calls) = Inr j)"
proof -
  let ?n = "case c of None \<Rightarrow> 10 | Some n \<Rightarrow> n"
  have "snd (search env up loads q c calls) =
          calls @ [\<lparr>verb = POST, url = ''https://api.feedly.com/v3/search/contents'',
                    params = [(''count'', str_int ?n)],
                    json_body = Some (JObj [(''query'', JStr q)]),
                    headers = HEADERS env, timeout = 30\<rparr>]"
    by (simp add: search_run Let_def)
  moreover have "read_int (str_int ?n) = Some ?n"
    by (rule read_int_str_int)
  moreover have "\<forall>s. read_int s = Some ?n \<longrightarrow> s = str_int ?n"
    by (simp add: read_int_unique)
  ultimately have first: "\<exists>t. snd (search env up loads q c calls) =
          calls @ [\<lparr>verb = POST, url = ''https://api.feedly.com/v3/search/contents'',
                    params = [(''count'', t)],
                    json_body = Some (JObj [(''query'', JStr q)]),
                    headers = HEADERS env, timeout = 30\<rparr>]
        \<and> read_int t = Some ?n \<and> (\<forall>s. read_int s = Some ?n \<longrightarrow> s = t)"
    by blast
  have rest: "search env up loads q None calls = search env up loads q (Some 10) calls
   \<and> params (last (snd (search env up loads q None calls))) = [(''count'', ''10'')]
   \<and> (up (last (snd (search env up loads q c calls))) = Some resp
        \<and> 200 \<le> status_code resp \<and> status_code resp \<le> 299
        \<and> loads (content resp) = Some j
      \<longrightarrow> fst (search env up loads q c calls) = Inr j)"
    by (simp add: search_run Let_def str_int_10 reply_def response_json_def is_success_def)
  from first rest show ?thesis by (rule conjI)
qed

theorem search_one_post_witness:
  "search env_secret up_ok loads_sample ''rust'' (Some 25) []
     = (Inr (JObj []),
        [\<lparr>verb = POST, url = ''https://api.feedly.com/v3/search/contents'',
          params = [(''count'', ''25'')], json_body = Some (JObj [(''query'', JStr ''rust'')]),
          headers = HEADERS env_secret, timeout = 30\<rparr>])"
proof -
  have r: "read_int ''25'' = Some 25" by code_simp
  from search_one_post [where env = env_secret and up = up_ok and loads = loads_sample
        and q = "''rust''" and c = "Some 25" and calls = "[]"
        and resp = "\<lparr>status_code = 200, content = ''{}''\<rparr>" and j = "JObj []"]
  obtain t where s: "snd (search env_secret up_ok loads_sample ''rust'' (Some 25) []) =
          [\<lparr>verb = POST, url = ''https://api.feedly.com/v3/search/contents'',
            params = [(''count'', t)], json_body = Some (JObj [(''query'', JStr ''rust'')]),
            headers = HEADERS env_secret, timeout = 30\<rparr>]"
    and u: "\<forall>s. read_int s = Some 25 \<longrightarrow> s = t"
    and f: "up_ok (last (snd (search env_secret up_ok loads_sample ''rust'' (Some 25) [])))
              = Some \<lparr>status_code = 200, content = ''{}''\<rparr>
            \<and> loads_sample ''{}'' = Some (JObj [])
            \<longrightarrow> fst (search env_secret up_ok loads_sample ''rust'' (Some 25) []) = Inr (JObj [])"
    by auto
  from u r have "t = ''25''" by auto
  moreover from f have "fst (search env_secret up_ok loads_sample ''rust'' (Some 25) [])
                          = Inr (JObj [])"
    by (simp add: up_ok_def loads_sample_def)
  ultimately show ?thesis using s by (simp add: prod_eq_iff)
qed

section \<open>Headers, timeout and the credential\<close>

text \<open>
  Claim C6. The one upstream call that an invocation of any of the four handlers issues
  carries the header \<open>Authorization: Bearer token\<close>, with the token read from the
  environment, and the header \<open>accept: application/json\<close>, and its timeout is 30.
\<close>

theorem every_call_authorized:
  "\<exists>r. snd (invoke env up loads iv calls) = calls @ [r]
     \<and> headers r =
         [(''Authorization'',
           ''Bearer '' @ (case env ''FEEDLY_TOKEN'' of None \<Rightarrow> ''None'' | Some t \<Rightarrow> t)),
          (''accept'', ''application/json'')]
     \<and> timeout r = 30"
  using invoke_one_call [of env up loads iv calls] by (auto simp add: HEADERS_eq)

theorem every_call_authorized_witness:
  "headers (last (snd (invoke env_secret up_ok loads_sample (Autocomplete ''Nvid'' None) [])))
     = [(''Authorization'', ''Bearer s3cr3t''), (''accept'', ''application/json'')]
   \<and> timeout (last (snd (invoke env_secret up_ok loads_sample (Autocomplete ''Nvid'' None) [])))
     = 30"
  using every_call_authorized [of env_secret up_ok loads_sample "Autocomplete ''Nvid'' None" "[]"]
  by (auto simp add: env_secret_def)

text \<open>
  Claim C7. What a handler returns is the decoded body of the upstream response, and its
  whole outcome is determined by the upstream's answer: two runs of the same invocation
  under different environments (so, different tokens) that receive the same answer from
  the upstream end with the same result. The token reaches the request headers only.
\<close>

theorem result_independent_of_token:
  "(up (last (snd (invoke env up loads iv calls)))
      = up' (last (snd (invoke env' up' loads iv calls')))
    \<longrightarrow> fst (invoke env up loads iv calls) = fst (invoke env' up' loads iv calls'))
   \<and> (\<forall>j. fst (invoke env up loads iv calls) = Inr j \<longrightarrow>
         (\<exists>resp. up (last (snd (invoke env up loads iv calls))) = Some resp
                 \<and> loads (content resp) = Some j))"
proof -
  obtain r where r: "invoke env up loads iv calls = (reply loads (up r), calls @ [r])"
    using invoke_one_call by blast
  obtain r' where r': "invoke env' up' loads iv calls' = (reply loads (up' r'), calls' @ [r'])"
    using invoke_one_call by blast
  have "\<forall>j. reply loads (up r) = Inr j \<longrightarrow>
          (\<exists>resp. up r = Some resp \<and> loads (content resp) = Some j)"
    by (auto simp add: reply_def response_json_def split: option.splits if_splits)
  with r r' show ?thesis by simp
qed

theorem result_independent_of_token_witness:
  "fst (invoke env_secret up_ok loads_sample (Entity_lookup ''nlp/f/entity/gz:org:apple'') [])
     = fst (invoke env_other up_ok loads_sample (Entity_lookup ''nlp/f/entity/gz:org:apple'') [])"
  using result_independent_of_token [where env = env_secret and env' = env_other
        and up = up_ok and up' = up_ok and loads = loads_sample
        and iv = "Entity_lookup ''nlp/f/entity/gz:org:apple''" and calls = "[]" and calls' = "[]"]
  by (simp add: up_ok_def)

section \<open>The registry\<close>

lemma register_all_eq:
  "register_all = Inr [search_tool, collect_tool, entity_lookup_tool, autocomplete_tool]"
  by (simp add: register_all_def mcp_tool_def search_tool_def collect_tool_def
        entity_lookup_tool_def autocomplete_tool_def)

lemma startup_eq:
  "startup env =
     Inr \<lparr>registry = [search_tool, collect_tool, entity_lookup_tool, autocomplete_tool],
          issued = []\<rparr>"
  by (simp add: startup_def register_all_eq)

lemma callTool_registry: "registry (snd (callTool env up loads name args s)) = registry s"
  by (simp add: callTool_def split: option.splits prod.splits)

lemma reachable_registry:
  "reachable env s \<Longrightarrow>
     registry s = [search_tool, collect_tool, entity_lookup_tool, autocomplete_tool]"
proof (induction rule: reachable.induct)
  case (start s)
  then show ?case by (auto simp add: startup_eq)
next
  case (list s)
  then show ?case by (simp add: listTools_def)
next
  case (call s up loads name args)
  then show ?case by (simp add: callTool_registry)
qed

lemma tool_names:
  "map tool_name [search_tool, collect_tool, entity_lookup_tool, autocomplete_tool] =
     [''feedly.search'', ''feedly.collect'', ''feedly.entity_lookup'', ''feedly.autocomplete'']"
  by (simp add: search_tool_def collect_tool_def entity_lookup_tool_def autocomplete_tool_def)

text \<open>
  Claim C4. In every state that the server reaches from startup by any sequence of
  \<open>listTools\<close> and \<open>callTool\<close> requests, \<open>listTools\<close> returns the four registered
  descriptors in registration order (search, collect, entity lookup, autocomplete), each
  name once, and leaves the state as it is.
\<close>

theorem listTools_all_four:
  "reachable env s \<Longrightarrow>
     map tool_name (fst (listTools s)) =
       [''feedly.search'', ''feedly.collect'', ''feedly.entity_lookup'', ''feedly.autocomplete'']
     \<and> distinct (map tool_name (fst (listTools s)))
     \<and> snd (listTools s) = s"
proof -
  assume "reachable env s"
  then have "registry s = [search_tool, collect_tool, entity_lookup_tool, autocomplete_tool]"
    by (rule reachable_registry)
  then have "map tool_name (registry s) =
       [''feedly.search'', ''feedly.collect'', ''feedly.entity_lookup'', ''feedly.autocomplete'']"
    by (simp only: tool_names)
  then show ?thesis by (simp add: listTools_def)
qed

theorem listTools_all_four_witness:
  "map tool_name
     (fst (listTools (snd (callTool env_secret up_500 loads_sample ''feedly.search'' args_sample
        \<lparr>registry = [search_tool, collect_tool, entity_lookup_tool, autocomplete_tool],
         issued = []\<rparr>)))) =
     [''feedly.search'', ''feedly.collect'', ''feedly.entity_lookup'', ''feedly.autocomplete'']"
proof -
  have "reachable env_secret
          \<lparr>registry = [search_tool, collect_tool, entity_lookup_tool, autocomplete_tool],
           issued = []\<rparr>"
    by (rule reachable.start) (rule startup_eq)
  then have "reachable env_secret
     (snd (callTool env_secret up_500 loads_sample ''feedly.search'' args_sample
        \<lparr>registry = [search_tool, collect_tool, entity_lookup_tool, autocomplete_tool],
         issued = []\<rparr>))"
    by (rule reachable.call)
  from listTools_all_four [OF this] show ?thesis by simp
qed

section \<open>Starting without a token\<close>

text \<open>
  Claim C9. When \<^verbatim>\<open>FEEDLY_TOKEN\<close> is not set in the environment the process starts with,
  startup still succeeds, the token is the absent value, and every invocation of a
  handler issues its upstream call, with the header \<open>Authorization: Bearer None\<close>.
\<close>

theorem unset_token_bearer_none:
  "env ''FEEDLY_TOKEN'' = None \<Longrightarrow>
     (\<exists>s. startup env = Inr s)
     \<and> TOKEN env = None
     \<and> (\<exists>r. snd (invoke env up loads iv calls) = calls @ [r]
            \<and> map_of (headers r) ''Authorization'' = Some ''Bearer None'')"
proof -
  assume unset: "env ''FEEDLY_TOKEN'' = None"
  obtain r where r: "invoke env up loads iv calls = (reply loads (up r), calls @ [r])"
    and h: "headers r = HEADERS env"
    using invoke_one_call by blast
  from unset h have "map_of (headers r) ''Authorization'' = Some ''Bearer None''"
    by (simp add: HEADERS_eq)
  with r unset show ?thesis by (auto simp add: startup_eq TOKEN_def os_getenv_def)
qed

theorem unset_token_bearer_none_witness:
  "map_of (headers (last (snd (invoke env_unset up_ok loads_sample
      (Collect ''feed/1'' None None) [])))) ''Authorization'' = Some ''Bearer None''"
proof -
  have u: "env_unset ''FEEDLY_TOKEN'' = None" by (simp add: env_unset_def)
  from u unset_token_bearer_none [where env = env_unset and up = up_ok and loads = loads_sample
         and iv = "Collect ''feed/1'' None None" and calls = "[]"]
  obtain r where "snd (invoke env_unset up_ok loads_sample (Collect ''feed/1'' None None) []) = [r]"
    and "map_of (headers r) ''Authorization'' = Some ''Bearer None''"
    by auto
  then show ?thesis by simp
qed

section \<open>The entity lookup handler\<close>

subsection \<open>What the encoder writes\<close>

lemma hex_table: "list_all (\<lambda>d. hex_char d = hex_upper d) [0..<16]"
  by code_simp

lemma hex_char_eq: "d < 16 \<Longrightarrow> hex_char d = hex_upper d"
  using hex_table by (simp add: list_all_iff)

lemma hex_chars: "list_all (\<lambda>d. hex_char d \<in> set ''0123456789ABCDEF'') [0..<16]"
  by code_simp

lemma hex_char_in: "d < 16 \<Longrightarrow> hex_char d \<in> set ''0123456789ABCDEF''"
  using hex_chars unfolding list_all_iff by simp

lemma of_char_div: "(of_char c :: nat) div 16 < 16"
proof -
  have "(of_char c :: nat) < 256" by simp
  then show ?thesis by (simp add: less_mult_imp_div_less)
qed

lemma safe_iff_unreserved: "(c \<in> set ALWAYS_SAFE) = unreserved c"
  unfolding ALWAYS_SAFE_def unreserved_def by auto

lemma quote_byte_plain: "quote_byte [] c = percent_encode_byte c"
  by (simp add: quote_byte_def percent_encode_byte_def safe_iff_unreserved hex_char_eq of_char_div)

lemma quote_plain: "quote s [] = percent_encode s"
proof -
  have "quote_byte [] = percent_encode_byte" by (rule ext) (rule quote_byte_plain)
  then show ?thesis by (simp add: quote_def percent_encode_def)
qed

lemma quote_byte_chars:
  "x \<in> set (quote_byte safe c) \<Longrightarrow>
     x \<in> set ALWAYS_SAFE \<or> x \<in> set safe \<or> x \<in> set ''%0123456789ABCDEF''"
proof -
  assume x: "x \<in> set (quote_byte safe c)"
  have h1: "hex_char (of_char c div 16) \<in> set ''0123456789ABCDEF''"
    by (rule hex_char_in [OF of_char_div])
  have h2: "hex_char (of_char c mod 16) \<in> set ''0123456789ABCDEF''"
    by (rule hex_char_in) simp
  show ?thesis
  proof (cases "c \<in> set ALWAYS_SAFE \<or> c \<in> set safe")
    case True
    with x show ?thesis by (auto simp add: quote_byte_def)
  next
    case False
    with x have "x = CHR ''%'' \<or> x = hex_char (of_char c div 16) \<or> x = hex_char (of_char c mod 16)"
      by (auto simp add: quote_byte_def)
    with h1 h2 show ?thesis by fastforce
  qed
qed

lemma quote_chars:
  "x \<in> set (quote s safe) \<Longrightarrow>
     x \<in> set ALWAYS_SAFE \<or> x \<in> set safe \<or> x \<in> set ''%0123456789ABCDEF''"
proof -
  assume "x \<in> set (quote s safe)"
  then obtain c where "x \<in> set (quote_byte safe c)" by (auto simp add: quote_def)
  then show ?thesis by (rule quote_byte_chars)
qed

lemma quote_plus_chars:
  "x \<in> set (quote_plus s) \<Longrightarrow>
     x \<in> set ALWAYS_SAFE \<or> x \<in> set ''+%0123456789ABCDEF''"
proof (cases "CHR '' '' \<in> set s")
  case False
  assume "x \<in> set (quote_plus s)"
  with False have "x \<in> set (quote s [])" by (simp add: quote_plus_def)
  from quote_chars [OF this] show ?thesis by auto
next
  case True
  assume "x \<in> set (quote_plus s)"
  with True obtain y where y: "y \<in> set (quote s '' '')"
    and x: "x = (if y = CHR '' '' then CHR ''+'' else y)"
    by (auto simp add: quote_plus_def replace_char_def)
  from quote_chars [OF y]
  have "y \<in> set ALWAYS_SAFE \<or> y = CHR '' '' \<or> y \<in> set ''%0123456789ABCDEF''"
    by simp
  with x show ?thesis by (cases "y = CHR '' ''") auto
qed

lemma slash_colon_unsafe:
  "CHR ''/'' \<notin> set ALWAYS_SAFE \<union> set ''+%0123456789ABCDEF''"
  "CHR '':'' \<notin> set ALWAYS_SAFE \<union> set ''+%0123456789ABCDEF''"
  by (simp_all add: ALWAYS_SAFE_def)

lemma quote_plus_no_slash_colon:
  "CHR ''/'' \<notin> set (quote_plus s) \<and> CHR '':'' \<notin> set (quote_plus s)"
  using quote_plus_chars [of "CHR ''/''" s] quote_plus_chars [of "CHR '':''" s] slash_colon_unsafe
  by blast


lemma replace_char_absent: "a \<notin> set xs \<Longrightarrow> replace_char a b xs = xs"
  by (induction xs) (auto simp add: replace_char_def)

lemma no_space_in_quote_byte: "c \<noteq> CHR '' '' \<Longrightarrow> CHR '' '' \<notin> set (quote_byte [] c)"
proof
  assume c: "c \<noteq> CHR '' ''" and "CHR '' '' \<in> set (quote_byte [] c)"
  from quote_byte_chars [OF this(2)] show False by (simp add: ALWAYS_SAFE_def)
qed

lemma replace_quote_byte:
  "replace_char (CHR '' '') (CHR ''+'') (quote_byte '' '' c)
     = (if c = CHR '' '' then ''+'' else percent_encode_byte c)"
proof (cases "c = CHR '' ''")
  case True
  then show ?thesis by (simp add: quote_byte_def replace_char_def)
next
  case False
  then have "quote_byte '' '' c = quote_byte [] c" by (simp add: quote_byte_def)
  moreover from False have "CHR '' '' \<notin> set (quote_byte [] c)" by (rule no_space_in_quote_byte)
  then have "replace_char (CHR '' '') (CHR ''+'') (quote_byte [] c) = quote_byte [] c"
    by (rule replace_char_absent)
  ultimately show ?thesis using False by (simp add: quote_byte_plain)
qed

lemma quote_plus_exact:
  "quote_plus s =
     concat (map (\<lambda>c. if c = CHR '' '' then ''+'' else percent_encode_byte c) s)"
proof (cases "CHR '' '' \<in> set s")
  case False
  then have m: "concat (map (\<lambda>c. if c = CHR '' '' then ''+'' else percent_encode_byte c) s)
               = concat (map percent_encode_byte s)"
    by (induction s) auto
  from False have "quote_plus s = percent_encode s" by (simp add: quote_plus_def quote_plain)
  then show ?thesis by (simp only: m percent_encode_def)
next
  case True
  have "replace_char (CHR '' '') (CHR ''+'') (quote s '' '')
          = concat (map (\<lambda>c. replace_char (CHR '' '') (CHR ''+'') (quote_byte '' '' c)) s)"
    by (simp add: replace_char_def quote_def map_concat comp_def)
  with True show ?thesis by (simp add: quote_plus_def replace_quote_byte)
qed

lemma split_on_no_sep: "sep \<notin> set q \<Longrightarrow> split_on sep q = [q]"
  by (induction q) auto

lemma httpx_url_entity:
  "CHR ''/'' \<notin> set q \<Longrightarrow> q \<noteq> ''.'' \<Longrightarrow> q \<noteq> ''..'' \<Longrightarrow>
     httpx_url (FEEDLY_BASE @ ''/entities/'' @ q) = ''https://api.feedly.com/v3/entities/'' @ q"
  by (simp add: httpx_url_def FEEDLY_BASE_def normalize_path_def split_on_no_sep Let_def)

lemma encoded_byte_nonempty:
  "(if c = CHR '' '' then ''+'' else percent_encode_byte c) \<noteq> []"
  by (simp add: percent_encode_byte_def)

lemma encoded_byte_dot:
  "(if c = CHR '' '' then ''+'' else percent_encode_byte c) = CHR ''.'' # r
     \<Longrightarrow> c = CHR ''.'' \<and> r = []"
  by (auto simp add: percent_encode_byte_def unreserved_def split: if_splits)

lemma quote_plus_dot: "quote_plus eid = ''.'' \<longleftrightarrow> eid = ''.''"
proof
  assume "eid = ''.''"
  then show "quote_plus eid = ''.''"
    by (simp add: quote_plus_exact percent_encode_byte_def unreserved_def)
next
  assume q: "quote_plus eid = ''.''"
  show "eid = ''.''"
  proof (cases eid)
    case Nil
    with q show ?thesis by (simp add: quote_plus_exact)
  next
    case (Cons c rest)
    with q have e: "(if c = CHR '' '' then ''+'' else percent_encode_byte c)
                   @ quote_plus rest = ''.''"
      by (simp add: quote_plus_exact)
    then obtain r where "(if c = CHR '' '' then ''+'' else percent_encode_byte c) = CHR ''.'' # r"
      using encoded_byte_nonempty [of c]
      by (cases "(if c = CHR '' '' then ''+'' else percent_encode_byte c)") auto
    from encoded_byte_dot [OF this] this e have "c = CHR ''.''" and "quote_plus rest = []"
      by auto
    moreover from this(2) have "rest = []"
      using encoded_byte_nonempty by (cases rest) (auto simp add: quote_plus_exact)
    ultimately show ?thesis using Cons by simp
  qed
qed

lemma quote_plus_dotdot: "quote_plus eid = ''..'' \<longleftrightarrow> eid = ''..''"
proof
  assume "eid = ''..''"
  then show "quote_plus eid = ''..''"
    by (simp add: quote_plus_exact percent_encode_byte_def unreserved_def)
next
  assume q: "quote_plus eid = ''..''"
  show "eid = ''..''"
  proof (cases eid)
    case Nil
    with q show ?thesis by (simp add: quote_plus_exact)
  next
    case (Cons c rest)
    with q have e: "(if c = CHR '' '' then ''+'' else percent_encode_byte c)
                   @ quote_plus rest = ''..''"
      by (simp add: quote_plus_exact)
    then obtain r where "(if c = CHR '' '' then ''+'' else percent_encode_byte c) = CHR ''.'' # r"
      using encoded_byte_nonempty [of c]
      by (cases "(if c = CHR '' '' then ''+'' else percent_encode_byte c)") auto
    from encoded_byte_dot [OF this] this e have "c = CHR ''.''" and "quote_plus rest = ''.''"
      by auto
    then show ?thesis using Cons by (simp add: quote_plus_dot)
  qed
qed

subsection \<open>The request\<close>

text \<open>
  For every id other than \<^verbatim>\<open>.\<close> and \<^verbatim>\<open>..\<close> the handler issues one GET to the entities
  endpoint, at the path that ends in the id as the encoder writes it: a space as a plus
  sign, every other byte percent-encoded. On the specification's own example this is
  the percent-encoded id.
\<close>

lemma entity_lookup_request:
  "eid \<noteq> ''.'' \<Longrightarrow> eid \<noteq> ''..'' \<Longrightarrow>
     snd (entity_lookup env up loads eid calls) =
       calls @ [\<lparr>verb = GET,
                 url = ''https://api.feedly.com/v3/entities/''
                       @ concat (map (\<lambda>c. if c = CHR '' '' then ''+''
                                          else percent_encode_byte c) eid),
                 params = [], json_body = None, headers = HEADERS env, timeout = 30\<rparr>]"
proof -
  assume "eid \<noteq> ''.''" and "eid \<noteq> ''..''"
  then have "quote_plus eid \<noteq> ''.''" and "quote_plus eid \<noteq> ''..''"
    by (simp_all add: quote_plus_dot quote_plus_dotdot)
  moreover have "CHR ''/'' \<notin> set (quote_plus eid)"
    using quote_plus_no_slash_colon [of eid] by blast
  ultimately have u: "httpx_url (FEEDLY_BASE @ ''/entities/'' @ quote_plus eid)
          = ''https://api.feedly.com/v3/entities/'' @ quote_plus eid"
    by (intro httpx_url_entity)
  have "snd (entity_lookup env up loads eid calls) =
       calls @ [\<lparr>verb = GET, url = ''https://api.feedly.com/v3/entities/'' @ quote_plus eid,
                 params = [], json_body = None, headers = HEADERS env, timeout = 30\<rparr>]"
    by (simp only: entity_lookup_run Let_def snd_conv u)
  then show ?thesis by (simp only: quote_plus_exact)
qed

lemma entity_lookup_example:
  "url (last (snd (entity_lookup env_secret up_ok loads_sample ''nlp/f/entity/gz:org:apple'' [])))
     = ''https://api.feedly.com/v3/entities/nlp%2Ff%2Fentity%2Fgz%3Aorg%3Aapple''
   \<and> percent_encode ''nlp/f/entity/gz:org:apple'' = ''nlp%2Ff%2Fentity%2Fgz%3Aorg%3Aapple''"
proof -
  have "httpx_url (FEEDLY_BASE @ ''/entities/'' @ quote_plus ''nlp/f/entity/gz:org:apple'')
          = ''https://api.feedly.com/v3/entities/nlp%2Ff%2Fentity%2Fgz%3Aorg%3Aapple''"
    by code_simp
  moreover have "percent_encode ''nlp/f/entity/gz:org:apple''
                   = ''nlp%2Ff%2Fentity%2Fgz%3Aorg%3Aapple''"
    by code_simp
  ultimately show ?thesis by (simp add: entity_lookup_run Let_def)
qed

text \<open>
  Claim C2 says that for every entity id the lookup handler percent-encodes the id
  (every \<open>/\<close> and every \<open>:\<close> escaped) and issues exactly one upstream GET to the
  entities endpoint at the encoded path. The handler misses this on two kinds of id.
  An id with a space: for \<^verbatim>\<open>a b\<close> the one GET goes to the path ending in \<^verbatim>\<open>a+b\<close>, where the
  percent-encoding is \<^verbatim>\<open>a%20b\<close>; in a path the plus sign stands for itself. The ids
  \<^verbatim>\<open>.\<close> and \<^verbatim>\<open>..\<close>: they are written as they are, and the request then loses them as dot
  segments, so the GET goes to \<^verbatim>\<open>/v3/entities\<close> and to \<^verbatim>\<open>/v3\<close>.
\<close>

theorem entity_lookup_path_defect:
  "snd (entity_lookup env_secret up_ok loads_sample ''a b'' []) =
     [\<lparr>verb = GET, url = ''https://api.feedly.com/v3/entities/a+b'',
       params = [], json_body = None, headers = HEADERS env_secret, timeout = 30\<rparr>]
   \<and> percent_encode ''a b'' = ''a%20b''
   \<and> snd (entity_lookup env_secret up_ok loads_sample ''.'' []) =
     [\<lparr>verb = GET, url = ''https://api.feedly.com/v3/entities'',
       params = [], json_body = None, headers = HEADERS env_secret, timeout = 30\<rparr>]
   \<and> snd (entity_lookup env_secret up_ok loads_sample ''..'' []) =
     [\<lparr>verb = GET, url = ''https://api.feedly.com/v3'',
       params = [], json_body = None, headers = HEADERS env_secret, timeout = 30\<rparr>]
   \<and> percent_encode ''.'' = ''.'' \<and> percent_encode ''..'' = ''..''"
proof -
  have "httpx_url (FEEDLY_BASE @ ''/entities/'' @ quote_plus ''a b'')
          = ''https://api.feedly.com/v3/entities/a+b''"
    by code_simp
  moreover have "httpx_url (FEEDLY_BASE @ ''/entities/'' @ quote_plus ''.'')
          = ''https://api.feedly.com/v3/entities''"
    by code_simp
  moreover have "httpx_url (FEEDLY_BASE @ ''/entities/'' @ quote_plus ''..'')
          = ''https://api.feedly.com/v3''"
    by code_simp
  moreover have "percent_encode ''a b'' = ''a%20b''"
    by code_simp
  moreover have "percent_encode ''.'' = ''.''" and "percent_encode ''..'' = ''..''"
    by code_simp+
  ultimately show ?thesis by (simp add: entity_lookup_run Let_def)
qed

section \<open>The invocation client, end to end\<close>

text \<open>
  Claim C8. The client takes the tool name, the \<^verbatim>\<open>--url\<close> flag with default
  \<^verbatim>\<open>http://localhost:8080\<close>, and the \<^verbatim>\<open>--args\<close> flag, decoded as JSON, with the default
  text \<^verbatim>\<open>{}\<close>. It opens one session, performs the handshake, issues one tool call and
  prints the result, ending with status 0; when one of these steps raises, the process
  ends with status 1 and the message on standard error, and nothing is printed. In no
  case is there more than one tool call.
\<close>

theorem client_single_call:
  "loads (case flag_args cmd of None \<Rightarrow> ''{}'' | Some a \<Rightarrow> a) = Some j \<Longrightarrow>
   u = (case flag_url cmd of None \<Rightarrow> ''http://localhost:8080'' | Some x \<Rightarrow> x) \<Longrightarrow>
     (connect p u = None \<and> initialize p = None \<and> call_tool p (arg_tool cmd) j = Inr result
        \<longrightarrow> main loads p cmd =
              \<lparr>exit_status = 0, stderr = [],
               events = [Open_session u, Initialize, Call_tool (arg_tool cmd) j, Print result,
                         Close_session]\<rparr>)
     \<and> (connect p u = Some msg
          \<or> connect p u = None \<and> initialize p = Some msg
          \<or> connect p u = None \<and> initialize p = None \<and> call_tool p (arg_tool cmd) j = Inl msg
        \<longrightarrow> exit_status (main loads p cmd) = 1 \<and> stderr (main loads p cmd) = [msg]
            \<and> Print result \<notin> set (events (main loads p cmd)))
     \<and> length (filter is_call (events (main loads p cmd))) \<le> 1
     \<and> (exit_status (main loads p cmd) = 0 \<longleftrightarrow> stderr (main loads p cmd) = [])"
  by (auto simp add: main_def parse_args_def run_def split: option.splits sum.splits)

theorem client_single_call_witness:
  "main loads_sample peer_ok \<lparr>arg_tool = ''feedly.search'', flag_url = None, flag_args = None\<rparr>
     = \<lparr>exit_status = 0, stderr = [],
        events = [Open_session ''http://localhost:8080'', Initialize,
                  Call_tool ''feedly.search'' (JObj []),
                  Print (JObj [(''isError'', JBool False)]), Close_session]\<rparr>
   \<and> exit_status (main loads_sample peer_refusing
        \<lparr>arg_tool = ''feedly.search'', flag_url = None, flag_args = None\<rparr>) = 1
   \<and> stderr (main loads_sample peer_refusing
        \<lparr>arg_tool = ''feedly.search'', flag_url = None, flag_args = None\<rparr>)
       = [''connection refused'']"
  using client_single_call [where loads = loads_sample and p = peer_ok
        and cmd = "\<lparr>arg_tool = ''feedly.search'', flag_url = None, flag_args = None\<rparr>"
        and j = "JObj []" and u = "''http://localhost:8080''"
        and result = "JObj [(''isError'', JBool False)]"]
      client_single_call [where loads = loads_sample and p = peer_refusing
        and cmd = "\<lparr>arg_tool = ''feedly.search'', flag_url = None, flag_args = None\<rparr>"
        and j = "JObj []" and u = "''http://localhost:8080''" and msg = "''connection refused''"]
  by (simp add: loads_sample_def peer_ok_def peer_refusing_def)

end
